theory Spec2Isabelle
  imports Main "HOL-Library.Word"
begin

section \<open>Values, errors and documents\<close>

text \<open>
  The samples handled by the loader are the Python values that a JSON decoder and the
  jq binding hand back: \<open>None\<close>, \<open>bool\<close>, \<open>int\<close>, \<open>float\<close>, \<open>str\<close>, \<open>list\<close> and \<open>dict\<close>
  (string keys, insertion order). A float is kept as its IEEE-754 bit pattern; the loader
  never computes with it, it only inspects its type and hands it to \<open>str\<close> or
  \<open>json.dumps\<close>.
\<close>

datatype py_value =
    PyNone
  | PyBool bool
  | PyInt int
  | PyFloat "64 word"
  | PyStr string
  | PyList "py_value list"
  | PyDict "(string \<times> py_value) list"

text \<open>
  Exceptions are values. \<open>ImportError\<close>, \<open>ValueError\<close> and \<open>AttributeError\<close> carry their
  message; \<open>UpstreamError\<close> stands for whatever the database client, the JSON decoder or
  the jq engine raises.
\<close>

datatype error =
    ImportError string
  | ValueError string
  | AttributeError string
  | UpstreamError string

text \<open>\<open>Document(page_content=text, metadata=metadata)\<close>; the metadata \<open>dict\<close> is an
  association list in insertion order.\<close>

record document =
  page_content :: string
  metadata :: "(string \<times> py_value) list"

section \<open>The collaborators\<close>

text \<open>
  A compiled jq program, applied to an input and iterated: the samples it yields, in
  order, and the exception that ends the iteration, if any. The iterables of the
  collaborators are taken to be finite.
\<close>

type_synonym jq_program = "py_value \<Rightarrow> py_value list \<times> error option"

text \<open>The calls made on the azure-cosmos client, in the order of lines 62 to 69.\<close>

datatype call =
    FromConnectionString string
  | GetDatabaseClient string
  | GetContainerClient string
  | QueryItems string bool

text \<open>
  Everything the loader does not implement itself is a field of the environment:
  whether \<open>import jq\<close> and \<open>from azure.cosmos import CosmosClient\<close> succeed,
  \<open>jq.compile\<close>, \<open>json.loads\<close>, \<open>json.dumps\<close>, the builtin \<open>str\<close>, and the client.
  The three handle constructors return the exception they raise, if any;
  \<open>query_items\<close> returns the item payloads it yields and the exception that ends the
  iteration, if any. \<open>json.dumps\<close> and \<open>str\<close> return their text or the exception they
  raise (both raise \<open>ValueError\<close> on an \<open>int\<close> of more than 4300 digits, for one).
\<close>

record environment =
  jq_installed :: bool
  azure_cosmos_installed :: bool
  jq_compile :: "string \<Rightarrow> error + jq_program"
  json_loads :: "string \<Rightarrow> error + py_value"
  json_dumps :: "py_value \<Rightarrow> error + string"
  py_str :: "py_value \<Rightarrow> error + string"
  from_connection_string :: "string \<Rightarrow> error option"
  get_database_client :: "string \<Rightarrow> string \<Rightarrow> error option"
  get_container_client :: "string \<Rightarrow> string \<Rightarrow> string \<Rightarrow> error option"
  query_items :: "string \<Rightarrow> string \<Rightarrow> string \<Rightarrow> string \<Rightarrow> bool
                    \<Rightarrow> string list \<times> error option"

section \<open>The loader object\<close>

text \<open>
  Modelled from the spec: the base class \<open>BaseLoader\<close> (imported at line 7, not part of
  the sources) contributes no attribute; the loader configuration of the data model has
  exactly the seven fields that the constructor assigns at lines 43 to 49.

  Line 79 reads an eighth attribute, \<open>self.file_path\<close>. Its field is \<open>None\<close> when the
  instance has no such attribute (the lookup raises \<open>AttributeError\<close>) and \<open>Some v\<close> when
  one has been put on the instance from outside.
\<close>

record loader =
  conn_str :: string
  database :: string
  container :: string
  query :: string
  enable_cross_partition_query :: bool
  jq_schema :: jq_program
  text_content :: bool
  file_path :: "py_value option"

text \<open>\<open>__init__\<close>, lines 36 to 49. No line assigns \<open>file_path\<close>.\<close>

definition init ::
  "environment \<Rightarrow> string \<Rightarrow> string \<Rightarrow> string \<Rightarrow> string \<Rightarrow> string \<Rightarrow> bool \<Rightarrow> bool
     \<Rightarrow> error + loader" where
  "init env cs db ct q schema ecpq tc =
     (if \<not> jq_installed env
      then Inl (ImportError ''jq package not found, please install it with `pip install jq`'')
      else (case jq_compile env schema of
              Inl e \<Rightarrow> Inl e
            | Inr prog \<Rightarrow>
                Inr \<lparr>conn_str = cs, database = db, container = ct, query = q,
                     enable_cross_partition_query = ecpq, jq_schema = prog,
                     text_content = tc, file_path = None\<rparr>))"

section \<open>Text extraction\<close>

text \<open>\<open>isinstance(content, str)\<close> and \<open>isinstance(content, dict)\<close>.\<close>

fun is_str :: "py_value \<Rightarrow> bool" where
  "is_str (PyStr s) = True"
| "is_str v = False"

fun is_dict :: "py_value \<Rightarrow> bool" where
  "is_dict (PyDict kvs) = True"
| "is_dict v = False"

text \<open>\<open>type(content)\<close> as the f-string of line 91 renders it: \<open><class 'dict'>\<close>.\<close>

fun type_name :: "py_value \<Rightarrow> string" where
  "type_name PyNone = ''NoneType''"
| "type_name (PyBool b) = ''bool''"
| "type_name (PyInt n) = ''int''"
| "type_name (PyFloat f) = ''float''"
| "type_name (PyStr s) = ''str''"
| "type_name (PyList vs) = ''list''"
| "type_name (PyDict kvs) = ''dict''"

definition type_repr :: "py_value \<Rightarrow> string" where
  "type_repr v = ''<class '' @ [CHR 0x27] @ type_name v @ [CHR 0x27] @ ''>''"

text \<open>
  The message of lines 91 to 93. The backslash at the end of a line continues the string
  literal, so the twenty spaces that indent the next source line are part of the message.
\<close>

definition type_mismatch_message :: "py_value \<Rightarrow> string" where
  "type_mismatch_message v =
     ''Expected page_content is string, got '' @ type_repr v @ '' instead. ''
     @ ''                    Set `text_content=False` if the desired input for ''
     @ ''                    `page_content` is not a string''"

text \<open>\<open>_get_text\<close>, lines 85 to 102. The \<open>metadata\<close> argument is not used.\<close>

definition get_text ::
  "environment \<Rightarrow> loader \<Rightarrow> py_value \<Rightarrow> (string \<times> py_value) list \<Rightarrow> error + string" where
  "get_text env l sample md =
     (if text_content l \<and> \<not> is_str sample
      then Inl (ValueError (type_mismatch_message sample))
      else (case sample of
              PyStr s \<Rightarrow> Inr s
            | PyDict kvs \<Rightarrow> (if kvs \<noteq> [] then json_dumps env sample else Inr [])
            | _ \<Rightarrow> (if sample \<noteq> PyNone then py_str env sample else Inr [])))"

section \<open>Parsing one item\<close>

definition no_file_path :: error where
  "no_file_path =
     AttributeError
       ([CHR 0x27] @ ''AzureCosmosDBLoader'' @ [CHR 0x27] @ '' object has no attribute ''
          @ [CHR 0x27] @ ''file_path'' @ [CHR 0x27])"

text \<open>
  The loop of lines 77 to 83 over the samples still to come, with the counter \<open>i\<close> of
  \<open>enumerate\<close>, the exception \<open>pending\<close> at the end of the iterable, and the list
  \<open>docs\<close> that \<open>append\<close> mutates. It returns the list as it is when the loop stops and the
  exception that stopped it, if any.
\<close>

fun parse_samples ::
  "environment \<Rightarrow> loader \<Rightarrow> int \<Rightarrow> py_value list \<Rightarrow> error option \<Rightarrow> document list
     \<Rightarrow> document list \<times> error option" where
  "parse_samples env l i [] pending docs = (docs, pending)"
| "parse_samples env l i (sample # rest) pending docs =
     (case file_path l of
        None \<Rightarrow> (docs, Some no_file_path)
      | Some fp \<Rightarrow>
          (case py_str env fp of
             Inl e \<Rightarrow> (docs, Some e)
           | Inr src \<Rightarrow>
               (let md = [(''source'', PyStr src), (''seq_num'', PyInt i)]
                in case get_text env l sample md of
                     Inl e \<Rightarrow> (docs, Some e)
                   | Inr text \<Rightarrow>
                       parse_samples env l (i + 1) rest pending
                         (docs @ [\<lparr>page_content = text, metadata = md\<rparr>]))))"

text \<open>\<open>_parse\<close>, lines 73 to 83.\<close>

definition parse ::
  "environment \<Rightarrow> loader \<Rightarrow> string \<Rightarrow> document list \<Rightarrow> document list \<times> error option" where
  "parse env l content docs =
     (case json_loads env content of
        Inl e \<Rightarrow> (docs, Some e)
      | Inr v \<Rightarrow>
          (case jq_schema l v of
             (samples, pending) \<Rightarrow>
               parse_samples env l (int (length docs) + 1) samples pending docs))"

section \<open>Loading\<close>

text \<open>
  The loop of lines 66 to 70 over the items still to come; \<open>pending\<close> is the exception
  that ends the query's iterable, if any.
\<close>

fun load_items ::
  "environment \<Rightarrow> loader \<Rightarrow> string list \<Rightarrow> error option \<Rightarrow> document list
     \<Rightarrow> document list \<times> error option" where
  "load_items env l [] pending docs = (docs, pending)"
| "load_items env l (item # items) pending docs =
     (case parse env l item docs of
        (docs', Some e) \<Rightarrow> (docs', Some e)
      | (docs', None) \<Rightarrow> load_items env l items pending docs')"

definition azure_cosmos_missing :: error where
  "azure_cosmos_missing =
     ImportError
       (''Could not import azure cosmos python package. ''
          @ ''Please install it with `pip install azure-cosmos`.'')"

text \<open>
  \<open>load\<close>, lines 53 to 71: the calls made on the client, and either the exception that
  leaves the method or the list it returns.
\<close>

definition load :: "environment \<Rightarrow> loader \<Rightarrow> call list \<times> (error + document list)" where
  "load env l =
     (if \<not> azure_cosmos_installed env then ([], Inl azure_cosmos_missing)
      else
        let c1 = [FromConnectionString (conn_str l)];
            c2 = c1 @ [GetDatabaseClient (database l)];
            c3 = c2 @ [GetContainerClient (container l)];
            c4 = c3 @ [QueryItems (query l) (enable_cross_partition_query l)]
        in case from_connection_string env (conn_str l) of
             Some e \<Rightarrow> (c1, Inl e)
           | None \<Rightarrow>
          (case get_database_client env (conn_str l) (database l) of
             Some e \<Rightarrow> (c2, Inl e)
           | None \<Rightarrow>
          (case get_container_client env (conn_str l) (database l) (container l) of
             Some e \<Rightarrow> (c3, Inl e)
           | None \<Rightarrow>
          (case query_items env (conn_str l) (database l) (container l) (query l)
                  (enable_cross_partition_query l) of
             (items, pending) \<Rightarrow>
               (case load_items env l items pending [] of
                  (docs, Some e) \<Rightarrow> (c4, Inl e)
                | (docs, None) \<Rightarrow> (c4, Inr docs))))))"

section \<open>Equality of Python values\<close>

text \<open>
  What \<open>==\<close> answers on two values held in different objects, as needed to say that a
  value read back equals the original. Numbers compare by value across \<open>bool\<close>, \<open>int\<close>
  and \<open>float\<close>; floats compare as IEEE-754 doubles, so a NaN equals nothing, itself
  included, and the two zeros are equal; lists compare element by element; mappings
  compare by size and key by key, whatever the order.
\<close>

definition float_is_nan :: "64 word \<Rightarrow> bool" where
  "float_is_nan w \<longleftrightarrow> take_bit 11 (drop_bit 52 w) = 2047 \<and> take_bit 52 w \<noteq> 0"

definition float_is_zero :: "64 word \<Rightarrow> bool" where
  "float_is_zero w \<longleftrightarrow> take_bit 63 w = 0"

definition float_eq :: "64 word \<Rightarrow> 64 word \<Rightarrow> bool" where
  "float_eq a b \<longleftrightarrow>
     \<not> float_is_nan a \<and> \<not> float_is_nan b \<and> (a = b \<or> (float_is_zero a \<and> float_is_zero b))"

text \<open>The integer that a double is, if it is one: with biased exponent \<open>e\<close> and fraction
  \<open>m\<close> a normal double is \<open>(2^52 + m) * 2^(e - 1075)\<close>.\<close>

definition float_int_value :: "64 word \<Rightarrow> int option" where
  "float_int_value w =
     (let e = unat (take_bit 11 (drop_bit 52 w));
          m = unat (take_bit 52 w);
          sign = (if bit w 63 then - 1 else 1)
      in if e = 2047 then None
         else if e = 0 then (if m = 0 then Some 0 else None)
         else if 1075 \<le> e then Some (sign * int ((2 ^ 52 + m) * 2 ^ (e - 1075)))
         else if 2 ^ (1075 - e) dvd (2 ^ 52 + m)
              then Some (sign * int ((2 ^ 52 + m) div 2 ^ (1075 - e)))
         else None)"

datatype py_number = IntNumber int | FloatNumber "64 word"

fun number_of :: "py_value \<Rightarrow> py_number option" where
  "number_of (PyBool b) = Some (IntNumber (if b then 1 else 0))"
| "number_of (PyInt n) = Some (IntNumber n)"
| "number_of (PyFloat w) = Some (FloatNumber w)"
| "number_of v = None"

fun number_eq :: "py_number \<Rightarrow> py_number \<Rightarrow> bool" where
  "number_eq (IntNumber m) (IntNumber n) = (m = n)"
| "number_eq (IntNumber m) (FloatNumber w) = (float_int_value w = Some m)"
| "number_eq (FloatNumber w) (IntNumber n) = (float_int_value w = Some n)"
| "number_eq (FloatNumber a) (FloatNumber b) = float_eq a b"

definition numbers_eq :: "py_value \<Rightarrow> py_value \<Rightarrow> bool" where
  "numbers_eq v w =
     (case (number_of v, number_of w) of
        (Some x, Some y) \<Rightarrow> number_eq x y
      | _ \<Rightarrow> False)"

fun py_eq :: "py_value \<Rightarrow> py_value \<Rightarrow> bool"
  and py_eq_list :: "py_value list \<Rightarrow> py_value list \<Rightarrow> bool"
  and py_eq_items :: "(string \<times> py_value) list \<Rightarrow> (string \<times> py_value) list \<Rightarrow> bool" where
  "py_eq PyNone w = (w = PyNone)"
| "py_eq (PyBool b) w = numbers_eq (PyBool b) w"
| "py_eq (PyInt n) w = numbers_eq (PyInt n) w"
| "py_eq (PyFloat x) w = numbers_eq (PyFloat x) w"
| "py_eq (PyStr s) w = (w = PyStr s)"
| "py_eq (PyList xs) w = (case w of PyList ys \<Rightarrow> py_eq_list xs ys | _ \<Rightarrow> False)"
| "py_eq (PyDict a) w =
     (case w of PyDict b \<Rightarrow> length a = length b \<and> py_eq_items a b | _ \<Rightarrow> False)"
| "py_eq_list [] ys = (ys = [])"
| "py_eq_list (x # xs) ys =
     (case ys of [] \<Rightarrow> False | y # ys' \<Rightarrow> py_eq x y \<and> py_eq_list xs ys')"
| "py_eq_items [] b = True"
| "py_eq_items (kv # rest) b =
     ((case map_of b (fst kv) of None \<Rightarrow> False | Some v' \<Rightarrow> py_eq (snd kv) v')
      \<and> py_eq_items rest b)"

section \<open>Stand-ins for the collaborators\<close>

text \<open>
  To run the loader on concrete inputs the collaborators are replaced by small stand-ins:
  a jq program that behaves as the filter \<open>.[]\<close>, a decoder that knows a few payloads,
  a \<open>str\<close> and a \<open>json.dumps\<close> that follow CPython 3.11 on the values they cover, and a
  client that yields a given list of items and then raises a given exception, if any.
\<close>

fun iterate_values :: jq_program where
  "iterate_values (PyDict kvs) = (map snd kvs, None)"
| "iterate_values (PyList vs) = (vs, None)"
| "iterate_values v = ([], Some (UpstreamError ''Cannot iterate''))"

definition decode_known :: "string \<Rightarrow> error + py_value" where
  \<open>decode_known s =
     (if s = ''{"a": "x", "b": "y"}'' then Inr (PyDict [(''a'', PyStr ''x''), (''b'', PyStr ''y'')])
      else if s = ''["z"]'' then Inr (PyList [PyStr ''z''])
      else if s = ''[{"k": 1}]'' then Inr (PyList [PyDict [(''k'', PyInt 1)]])
      else if s = ''{"k": 1}'' then Inr (PyDict [(''k'', PyInt 1)])
      else if s = ''[1, "x"]'' then Inr (PyList [PyInt 1, PyStr ''x''])
      else if s = ''{"a": NaN}'' then Inr (PyDict [(''a'', PyFloat 0x7FF8000000000000)])
      else Inl (UpstreamError ''JSONDecodeError''))\<close>

text \<open>The answer of a stand-in on a value it does not cover.\<close>

definition not_covered :: error where
  "not_covered = UpstreamError ''not covered by the stand-in''"

text \<open>CPython refuses to convert an \<open>int\<close> of more than 4300 digits to a string.\<close>

definition digit_limit_error :: error where
  "digit_limit_error =
     ValueError
       (''Exceeds the limit (4300 digits) for integer string conversion; ''
          @ ''use sys.set_int_max_str_digits() to increase the limit'')"

definition digit_char :: "nat \<Rightarrow> char" where
  "digit_char d = ''0123456789abcdef'' ! d"

fun decimal :: "nat \<Rightarrow> string" where
  "decimal n =
     (if n < 10 then [digit_char n]
      else decimal (n div 10) @ [digit_char (n mod 10)])"

declare decimal.simps [simp del]

definition digit_limit :: int where
  "digit_limit = 10 ^ 4300"

definition str_int :: "int \<Rightarrow> error + string" where
  "str_int n =
     (if digit_limit \<le> \<bar>n\<bar> then Inl digit_limit_error
      else Inr ((if n < 0 then ''-'' else []) @ decimal (nat \<bar>n\<bar>)))"

text \<open>An \<open>int\<close> of 5001 digits.\<close>

definition huge_int :: int where
  "huge_int = 10 ^ 5000"

definition str_known :: "py_value \<Rightarrow> error + string" where
  "str_known v =
     (case v of
        PyNone \<Rightarrow> Inr ''None''
      | PyBool b \<Rightarrow> Inr (if b then ''True'' else ''False'')
      | PyInt n \<Rightarrow> str_int n
      | PyStr s \<Rightarrow> Inr s
      | _ \<Rightarrow> Inl not_covered)"

text \<open>\<open>json.dumps\<close> with its defaults: separators \<open>", "\<close> and \<open>": "\<close>, keys in insertion
  order, strings escaped to ASCII, the first exception of an element propagated.\<close>

fun first_error :: "(error + 'a) list \<Rightarrow> error + 'a list" where
  "first_error [] = Inr []"
| "first_error (Inl e # rs) = Inl e"
| "first_error (Inr x # rs) =
     (case first_error rs of Inl e \<Rightarrow> Inl e | Inr xs \<Rightarrow> Inr (x # xs))"

fun join :: "string \<Rightarrow> string list \<Rightarrow> string" where
  "join sep [] = []"
| "join sep [x] = x"
| "join sep (x # y # ys) = x @ sep @ join sep (y # ys)"

definition escape_char :: "char \<Rightarrow> string" where
  "escape_char c =
     (if c = CHR 0x22 then [CHR 0x5C, CHR 0x22]
      else if c = CHR 0x5C then [CHR 0x5C, CHR 0x5C]
      else if c = CHR 0x0A then [CHR 0x5C, CHR ''n'']
      else if c = CHR 0x0D then [CHR 0x5C, CHR ''r'']
      else if c = CHR 0x09 then [CHR 0x5C, CHR ''t'']
      else if c = CHR 0x08 then [CHR 0x5C, CHR ''b'']
      else if c = CHR 0x0C then [CHR 0x5C, CHR ''f'']
      else if 32 \<le> (of_char c :: nat) \<and> (of_char c :: nat) \<le> 126 then [c]
      else [CHR 0x5C, CHR ''u'', CHR ''0'', CHR ''0'',
            digit_char ((of_char c :: nat) div 16), digit_char ((of_char c :: nat) mod 16)])"

definition quote :: "string \<Rightarrow> string" where
  "quote s = [CHR 0x22] @ concat (map escape_char s) @ [CHR 0x22]"

fun dumps_known :: "py_value \<Rightarrow> error + string" where
  "dumps_known PyNone = Inr ''null''"
| "dumps_known (PyBool b) = Inr (if b then ''true'' else ''false'')"
| "dumps_known (PyInt n) = str_int n"
| "dumps_known (PyFloat w) =
     (if float_is_nan w then Inr ''NaN''
      else if w = 0x7FF0000000000000 then Inr ''Infinity''
      else if w = 0xFFF0000000000000 then Inr ''-Infinity''
      else Inl not_covered)"
| "dumps_known (PyStr s) = Inr (quote s)"
| "dumps_known (PyList vs) =
     (case first_error (map dumps_known vs) of
        Inl e \<Rightarrow> Inl e
      | Inr ts \<Rightarrow> Inr (''['' @ join '', '' ts @ '']''))"
| "dumps_known (PyDict kvs) =
     (case first_error (map (\<lambda>kv. dumps_known (snd kv)) kvs) of
        Inl e \<Rightarrow> Inl e
      | Inr ts \<Rightarrow>
          Inr (''{'' @ join '', '' (map (\<lambda>(k, t). quote k @ '': '' @ t) (zip (map fst kvs) ts))
                 @ ''}''))"

definition test_env :: "bool \<Rightarrow> bool \<Rightarrow> string list \<Rightarrow> error option \<Rightarrow> environment" where
  "test_env jq_ok azure_ok items pending =
     \<lparr>jq_installed = jq_ok, azure_cosmos_installed = azure_ok,
      jq_compile = (\<lambda>schema. Inr iterate_values),
      json_loads = decode_known,
      json_dumps = dumps_known,
      py_str = str_known,
      from_connection_string = (\<lambda>cs. None),
      get_database_client = (\<lambda>cs db. None),
      get_container_client = (\<lambda>cs db ct. None),
      query_items = (\<lambda>cs db ct q ecpq. (items, pending))\<rparr>"

text \<open>A loader as the constructor leaves it, and the same loader with a \<open>file_path\<close>
  attribute set on it afterwards.\<close>

definition constructed_loader :: "bool \<Rightarrow> loader" where
  "constructed_loader tc =
     \<lparr>conn_str = ''AccountEndpoint=e;AccountKey=k;'', database = ''db'', container = ''c'',
      query = ''SELECT * FROM c'', enable_cross_partition_query = True,
      jq_schema = iterate_values, text_content = tc, file_path = None\<rparr>"

definition patched_loader :: "bool \<Rightarrow> loader" where
  "patched_loader tc = (constructed_loader tc)\<lparr>file_path := Some (PyStr ''cosmos'')\<rparr>"

section \<open>Auxiliary notions\<close>

text \<open>The \<open>seq_num\<close> entries of a list of documents are \<open>1, 2, ...\<close> in order.\<close>

definition numbered :: "document list \<Rightarrow> bool" where
  "numbered docs \<longleftrightarrow>
     map (\<lambda>d. map_of (metadata d) ''seq_num'') docs
       = map (\<lambda>k. Some (PyInt (int k))) [1..<Suc (length docs)]"

text \<open>The client is ready when the import of line 54 and the three calls of lines 62 to
  64 all succeed.\<close>

definition client_ready :: "environment \<Rightarrow> loader \<Rightarrow> bool" where
  "client_ready env l \<longleftrightarrow>
     azure_cosmos_installed env
     \<and> from_connection_string env (conn_str l) = None
     \<and> get_database_client env (conn_str l) (database l) = None
     \<and> get_container_client env (conn_str l) (database l) (container l) = None"

text \<open>
  What can go wrong in a run, stated on the collaborators' answers alone. A sample is
  handled without exception when the \<open>file_path\<close> attribute exists, \<open>str\<close> of it returns,
  and the text extraction returns. An item is handled without exception when it decodes,
  the filter's iteration ends without exception, and each of its samples is handled
  without exception. A run is clean when each item is, and the query's iteration ends
  without exception.
\<close>

definition sample_ok :: "environment \<Rightarrow> loader \<Rightarrow> py_value \<Rightarrow> bool" where
  "sample_ok env l sample \<longleftrightarrow>
     (case file_path l of
        None \<Rightarrow> False
      | Some fp \<Rightarrow>
          (case py_str env fp of
             Inl e \<Rightarrow> False
           | Inr src \<Rightarrow> (case get_text env l sample [] of Inl e \<Rightarrow> False | Inr t \<Rightarrow> True)))"

definition item_ok :: "environment \<Rightarrow> loader \<Rightarrow> string \<Rightarrow> bool" where
  "item_ok env l content \<longleftrightarrow>
     (case json_loads env content of
        Inl e \<Rightarrow> False
      | Inr v \<Rightarrow> snd (jq_schema l v) = None \<and> list_all (sample_ok env l) (fst (jq_schema l v)))"

definition run_ok :: "environment \<Rightarrow> loader \<Rightarrow> string list \<Rightarrow> error option \<Rightarrow> bool" where
  "run_ok env l items pending \<longleftrightarrow> pending = None \<and> list_all (item_ok env l) items"

text \<open>
  The samples of an item, the samples of a run in order, and the documents that the spec
  asks for them: one per sample, numbered from \<open>i\<close>. (The empty defaults stand where a
  step raises; they are never used in a clean run.)
\<close>

definition samples_of :: "environment \<Rightarrow> loader \<Rightarrow> string \<Rightarrow> py_value list" where
  "samples_of env l content =
     (case json_loads env content of Inl e \<Rightarrow> [] | Inr v \<Rightarrow> fst (jq_schema l v))"

definition all_samples :: "environment \<Rightarrow> loader \<Rightarrow> string list \<Rightarrow> py_value list" where
  "all_samples env l items = concat (map (samples_of env l) items)"

definition source_of :: "environment \<Rightarrow> loader \<Rightarrow> string" where
  "source_of env l =
     (case file_path l of
        None \<Rightarrow> []
      | Some fp \<Rightarrow> (case py_str env fp of Inl e \<Rightarrow> [] | Inr src \<Rightarrow> src))"

definition document_of :: "environment \<Rightarrow> loader \<Rightarrow> int \<Rightarrow> py_value \<Rightarrow> document" where
  "document_of env l i sample =
     \<lparr>page_content = (case get_text env l sample [] of Inl e \<Rightarrow> [] | Inr t \<Rightarrow> t),
      metadata = [(''source'', PyStr (source_of env l)), (''seq_num'', PyInt i)]\<rparr>"

fun documents_from :: "environment \<Rightarrow> loader \<Rightarrow> int \<Rightarrow> py_value list \<Rightarrow> document list" where
  "documents_from env l i [] = []"
| "documents_from env l i (sample # rest) =
     document_of env l i sample # documents_from env l (i + 1) rest"

text \<open>The documents of the example runs below.\<close>

definition xy_docs :: "document list" where
  "xy_docs =
     [\<lparr>page_content = ''x'',
       metadata = [(''source'', PyStr ''cosmos''), (''seq_num'', PyInt 1)]\<rparr>,
      \<lparr>page_content = ''y'',
       metadata = [(''source'', PyStr ''cosmos''), (''seq_num'', PyInt 2)]\<rparr>]"

definition xyz_docs :: "document list" where
  "xyz_docs =
     xy_docs @
     [\<lparr>page_content = ''z'',
       metadata = [(''source'', PyStr ''cosmos''), (''seq_num'', PyInt 3)]\<rparr>]"

lemmas run_simps =
  load_def test_env_def patched_loader_def constructed_loader_def parse_def
  decode_known_def get_text_def str_known_def

section \<open>Facts about the stand-ins\<close>


lemma digit_limit_le_huge: "digit_limit \<le> \<bar>huge_int\<bar>"
proof -
  have "(10::int) ^ 4300 \<le> 10 ^ 5000" by (rule power_increasing) simp_all
  moreover have "(0::int) \<le> 10 ^ 5000" by (rule zero_le_power) simp
  ultimately show ?thesis
    unfolding digit_limit_def huge_int_def by (simp only: abs_of_nonneg)
qed



lemma str_int_huge: "str_int huge_int = Inl digit_limit_error"
  using digit_limit_le_huge by (simp add: str_int_def)

section \<open>Sequence numbers\<close>

lemma numbered_Nil: "numbered []"
  by (simp add: numbered_def)

lemma numbered_snoc:
  "numbered docs \<Longrightarrow> map_of (metadata d) ''seq_num'' = Some (PyInt (int (length docs) + 1))
     \<Longrightarrow> numbered (docs @ [d])"
  by (simp add: numbered_def add.commute)

text \<open>One pass of the inner loop keeps the numbering, provided the counter starts where
  \<open>enumerate(data, len(docs) + 1)\<close> starts it.\<close>

lemma parse_samples_numbered:
  "parse_samples env l (int (length docs) + 1) samples pending docs = (docs', r)
     \<Longrightarrow> numbered docs \<Longrightarrow> numbered docs'"
proof (induction samples arbitrary: docs)
  case Nil
  then show ?case by simp
next
  case (Cons sample rest)
  show ?case
  proof (cases "file_path l")
    case None
    with Cons.prems show ?thesis by simp
  next
    case (Some fp)
    show ?thesis
    proof (cases "py_str env fp")
      case (Inl e)
      with Some Cons.prems show ?thesis by simp
    next
      case src: (Inr src)
      let ?md = "[(''source'', PyStr src), (''seq_num'', PyInt (int (length docs) + 1))]"
      show ?thesis
      proof (cases "get_text env l sample ?md")
        case (Inl e)
        with Some src Cons.prems show ?thesis by simp
      next
        case (Inr body)
        let ?d = "\<lparr>page_content = body, metadata = ?md\<rparr>"
        have step: "parse_samples env l (int (length (docs @ [?d])) + 1) rest pending
                      (docs @ [?d]) = (docs', r)"
          using Cons.prems(1) Some src Inr by (simp add: add.commute)
        have "numbered (docs @ [?d])"
          using Cons.prems(2) by (rule numbered_snoc) simp
        with step show ?thesis by (rule Cons.IH)
      qed
    qed
  qed
qed

lemma parse_numbered:
  "parse env l content docs = (docs', r) \<Longrightarrow> numbered docs \<Longrightarrow> numbered docs'"
  by (auto simp: parse_def split: sum.splits prod.splits dest: parse_samples_numbered)

lemma load_items_numbered:
  "load_items env l items pending docs = (docs', r) \<Longrightarrow> numbered docs \<Longrightarrow> numbered docs'"
proof (induction items arbitrary: docs)
  case Nil
  then show ?case by simp
next
  case (Cons item items)
  obtain ds e where p: "parse env l item docs = (ds, e)"
    by (cases "parse env l item docs")
  from p Cons.prems(2) have n: "numbered ds" by (rule parse_numbered)
  show ?case
  proof (cases e)
    case None
    with p Cons.prems(1) have "load_items env l items pending ds = (docs', r)" by simp
    then show ?thesis using n by (rule Cons.IH)
  next
    case (Some x)
    with p Cons.prems(1) have "docs' = ds" by simp
    with n show ?thesis by simp
  qed
qed

text \<open>When \<open>load\<close> returns a list, the loop over the items ran to its end without an
  exception, and the list is the one the loop accumulated.\<close>

lemma load_Inr_items:
  "snd (load env l) = Inr docs \<Longrightarrow>
     load_items env l
       (fst (query_items env (conn_str l) (database l) (container l) (query l)
               (enable_cross_partition_query l)))
       (snd (query_items env (conn_str l) (database l) (container l) (query l)
               (enable_cross_partition_query l))) [] = (docs, None)"
  by (auto simp: load_def Let_def split: if_splits option.splits prod.splits)

text \<open>
  Claim C1. For every environment and loader, when \<open>load\<close> returns the documents
  \<open>docs\<close>, their \<open>seq_num\<close> entries are \<open>1, 2, ..., length docs\<close> in output order: 1-based,
  without gap or repeat, and carried on from one item to the next.
\<close>

theorem load_seq_num_continuous:
  "snd (load env l) = Inr docs \<Longrightarrow>
     map (\<lambda>d. map_of (metadata d) ''seq_num'') docs
       = map (\<lambda>k. Some (PyInt (int k))) [1..<Suc (length docs)]"
proof -
  assume "snd (load env l) = Inr docs"
  then have "load_items env l
       (fst (query_items env (conn_str l) (database l) (container l) (query l)
               (enable_cross_partition_query l)))
       (snd (query_items env (conn_str l) (database l) (container l) (query l)
               (enable_cross_partition_query l))) [] = (docs, None)"
    by (rule load_Inr_items)
  then have "numbered docs" using numbered_Nil by (rule load_items_numbered)
  then show ?thesis by (simp add: numbered_def)
qed

theorem load_seq_num_continuous_witness:
  \<open>snd (load (test_env True True [''{"a": "x", "b": "y"}'', ''["z"]''] None)
          (patched_loader True))
     = Inr xyz_docs
   \<and> map (\<lambda>d. map_of (metadata d) ''seq_num'') xyz_docs
       = [Some (PyInt 1), Some (PyInt 2), Some (PyInt 3)]\<close>
proof -
  have run: \<open>snd (load (test_env True True [''{"a": "x", "b": "y"}'', ''["z"]''] None)
                 (patched_loader True)) = Inr xyz_docs\<close>
    by (simp add: run_simps xyz_docs_def xy_docs_def)
  have "[1..<Suc (length xyz_docs)] = [1, 2, 3]"
    by (simp add: xyz_docs_def xy_docs_def upt_rec)
  with load_seq_num_continuous [OF run] run show ?thesis
    by simp
qed

section \<open>The attribute read at line 79\<close>

text \<open>The constructor leaves the instance without a \<open>file_path\<close> attribute.\<close>

lemma init_no_file_path:
  "init env cs db ct q schema ecpq tc = Inr l \<Longrightarrow> file_path l = None"
  by (auto simp: init_def split: if_splits sum.splits)

text \<open>Without the attribute the first sample of any item stops the loop, and no document
  is ever appended.\<close>

lemma parse_samples_no_file_path:
  "file_path l = None \<Longrightarrow>
     parse_samples env l i (sample # rest) pending docs = (docs, Some no_file_path)"
  by simp

lemma parse_samples_no_file_path_docs:
  "file_path l = None \<Longrightarrow> fst (parse_samples env l i samples pending docs) = docs"
  by (cases samples) simp_all

lemma parse_no_file_path_docs:
  "file_path l = None \<Longrightarrow> fst (parse env l content docs) = docs"
  by (simp add: parse_def parse_samples_no_file_path_docs split: sum.splits prod.splits)

lemma load_items_no_file_path_docs:
  "file_path l = None \<Longrightarrow> fst (load_items env l items pending docs) = docs"
proof (induction items arbitrary: docs)
  case Nil
  then show ?case by simp
next
  case (Cons item items)
  from Cons.prems have "fst (parse env l item docs) = docs"
    by (rule parse_no_file_path_docs)
  with Cons show ?case
    by (cases "parse env l item docs") (auto split: option.splits)
qed

lemma load_no_file_path_empty:
  "file_path l = None \<Longrightarrow> snd (load env l) = Inr docs \<Longrightarrow> docs = []"
  using load_items_no_file_path_docs [of l env] load_Inr_items [of env l docs]
  by (metis fst_conv)

text \<open>
  Claim C2. The claim asks that, whenever the items produce at least one sample, the
  metadata \<open>{source, seq_num}\<close> is built and \<open>load\<close> returns. On the code it is not so:
  with both libraries present, text mode disabled, and the single item
  \<open>{"a": "x", "b": "y"}\<close> under the filter \<open>.[]\<close> (two string samples), the loader that the
  constructor returns raises \<open>AttributeError\<close> at the first sample, because line 79 reads
  \<open>self.file_path\<close>, which no line assigns.
\<close>

theorem load_after_init_attribute_error:
  \<open>init (test_env True True [''{"a": "x", "b": "y"}''] None)
      ''AccountEndpoint=e;AccountKey=k;'' ''db'' ''c'' ''SELECT * FROM c'' ''.[]'' True False
     = Inr (constructed_loader False)
   \<and> snd (load (test_env True True [''{"a": "x", "b": "y"}''] None) (constructed_loader False))
     = Inl no_file_path\<close>
  by (simp add: init_def run_simps)

section \<open>The text extraction rule\<close>

text \<open>The \<open>metadata\<close> argument has no influence on the outcome.\<close>

lemma get_text_metadata: "get_text env l sample md = get_text env l sample md'"
  by (simp add: get_text_def)

text \<open>
  Claim C3. With text mode enabled, a sample that is not a string makes \<open>_get_text\<close>
  raise \<open>ValueError\<close> with the message of lines 91 to 93, which contains the rendering of
  the sample's type and the advice to set \<open>text_content=False\<close>; the loop of \<open>_parse\<close> stops
  at that sample with the list of documents as it was, so no document is made for it.
\<close>

theorem get_text_type_mismatch:
  "text_content l \<Longrightarrow> \<not> is_str sample \<Longrightarrow>
     get_text env l sample md = Inl (ValueError (type_mismatch_message sample))
     \<and> (\<exists>e. parse_samples env l i (sample # rest) pending docs = (docs, Some e))"
  by (cases "file_path l"; cases "py_str env (the (file_path l))")
     (simp_all add: get_text_def)

theorem get_text_type_mismatch_witness:
  \<open>text_content (patched_loader True) \<and> \<not> is_str (PyDict [(''k'', PyInt 1)])
   \<and> get_text (test_env True True [] None) (patched_loader True) (PyDict [(''k'', PyInt 1)]) []
       = Inl (ValueError
           (''Expected page_content is string, got <class 'dict'> instead. ''
            @ ''                    Set `text_content=False` if the desired input for ''
            @ ''                    `page_content` is not a string''))
   \<and> (\<exists>e. parse_samples (test_env True True [] None) (patched_loader True) 1
              [PyDict [(''k'', PyInt 1)], PyStr ''x''] None [] = ([], Some e))\<close>
proof -
  have a: "text_content (patched_loader True)"
    by (simp add: patched_loader_def constructed_loader_def)
  have b: "\<not> is_str (PyDict [(''k'', PyInt 1)])" by simp
  from get_text_type_mismatch
         [OF a b, of "test_env True True [] None" "[]" 1 "[PyStr ''x'']" None "[]"] a b
  show ?thesis
    by (simp add: type_mismatch_message_def type_repr_def)
qed

text \<open>
  Claim C4. A string sample is returned unchanged by \<open>_get_text\<close>, whatever the text-mode
  flag and also when it is empty; and when the metadata can be built, the document
  appended for it has exactly that string as its \<open>page_content\<close>.
\<close>

theorem get_text_str_identity:
  "get_text env l (PyStr s) md = Inr s
   \<and> (\<forall>fp src. file_path l = Some fp \<and> py_str env fp = Inr src \<longrightarrow>
        parse_samples env l i (PyStr s # rest) pending docs
          = parse_samples env l (i + 1) rest pending
              (docs @ [\<lparr>page_content = s,
                         metadata = [(''source'', PyStr src), (''seq_num'', PyInt i)]\<rparr>]))"
  by (simp add: get_text_def)

theorem get_text_str_identity_witness:
  "get_text (test_env True True [] None) (patched_loader True) (PyStr []) [] = Inr []
   \<and> get_text (test_env True True [] None) (patched_loader False) (PyStr ''x'') [] = Inr ''x''
   \<and> parse_samples (test_env True True [] None) (patched_loader True) 1 [PyStr ''x''] None []
       = ([\<lparr>page_content = ''x'',
             metadata = [(''source'', PyStr ''cosmos''), (''seq_num'', PyInt 1)]\<rparr>], None)"
proof -
  have fp: "file_path (patched_loader True) = Some (PyStr ''cosmos'')"
    by (simp add: patched_loader_def)
  have s: "py_str (test_env True True [] None) (PyStr ''cosmos'') = Inr ''cosmos''"
    by (simp add: test_env_def str_known_def)
  from get_text_str_identity
         [of "test_env True True [] None" "patched_loader True" "[]" "[]" 1 "[]" None "[]"]
       get_text_str_identity
         [of "test_env True True [] None" "patched_loader False" "''x''" "[]" 1 "[]" None "[]"]
       get_text_str_identity
         [of "test_env True True [] None" "patched_loader True" "''x''" "[]" 1 "[]" None "[]"]
       fp s
  show ?thesis by simp
qed




text \<open>
  Claim C6. With text mode disabled, the empty \<open>dict\<close> gives the empty string, whatever
  \<open>json.dumps\<close> would have made of it.
\<close>

theorem get_text_empty_dict:
  "\<not> text_content l \<Longrightarrow> get_text env l (PyDict []) md = Inr []"
  by (simp add: get_text_def)

theorem get_text_empty_dict_witness:
  "\<not> text_content (patched_loader False)
   \<and> get_text (test_env True True [] None) (patched_loader False) (PyDict []) [] = Inr []
   \<and> json_dumps (test_env True True [] None) (PyDict []) = Inr ''{}''"
proof -
  have a: "\<not> text_content (patched_loader False)"
    by (simp add: patched_loader_def constructed_loader_def)
  from get_text_empty_dict [OF a, of "test_env True True [] None" "[]"] a
  show ?thesis by (simp add: test_env_def)
qed

text \<open>
  Claim C7. With text mode disabled, a sample that is neither a string nor a \<open>dict\<close>
  gives \<open>str(sample)\<close>, except \<open>None\<close>, which gives the empty string.
\<close>

theorem get_text_other_values:
  "\<not> text_content l \<Longrightarrow> \<not> is_str v \<Longrightarrow> \<not> is_dict v \<Longrightarrow>
     get_text env l v md = (if v = PyNone then Inr [] else py_str env v)"
  by (cases v) (simp_all add: get_text_def)

theorem get_text_other_values_witness:
  "\<not> text_content (patched_loader False)
   \<and> \<not> is_str (PyBool False) \<and> \<not> is_dict (PyBool False)
   \<and> \<not> is_str PyNone \<and> \<not> is_dict PyNone
   \<and> get_text (test_env True True [] None) (patched_loader False) (PyBool False) []
       = Inr ''False''
   \<and> get_text (test_env True True [] None) (patched_loader False) PyNone [] = Inr []"
proof -
  have a: "\<not> text_content (patched_loader False)"
    by (simp add: patched_loader_def constructed_loader_def)
  have b: "\<not> is_str (PyBool False)" "\<not> is_dict (PyBool False)" by simp_all
  have c: "\<not> is_str PyNone" "\<not> is_dict PyNone" by simp_all
  from get_text_other_values [OF a b, of "test_env True True [] None" "[]"]
       get_text_other_values [OF a c, of "test_env True True [] None" "[]"] a
  show ?thesis by (simp add: test_env_def str_known_def)
qed

text \<open>
  Claim C10, as amended. The claim says that with text mode disabled \<open>_get_text\<close> returns
  a string for every sample. It does not: \<open>str\<close> and \<open>json.dumps\<close> raise on some values, and
  nothing in \<open>_get_text\<close> catches that. What holds is this. With text mode disabled, an
  exception of \<open>_get_text\<close> is the exception of \<open>json.dumps\<close> on a non-empty mapping or of
  \<open>str\<close> on a value that is neither a string, a mapping nor \<open>None\<close>; a string is returned
  for every string, for \<open>None\<close>, for the empty mapping, and for every sample on which
  neither call raises. With text mode enabled, an exception of \<open>_get_text\<close> is the
  type-mismatch error, on a sample that is not a string.
\<close>

theorem get_text_exceptions:
  "(\<not> text_content l \<longrightarrow>
      (\<forall>e. get_text env l v md = Inl e \<longrightarrow>
           (is_dict v \<and> v \<noteq> PyDict [] \<and> json_dumps env v = Inl e)
         \<or> (\<not> is_dict v \<and> \<not> is_str v \<and> v \<noteq> PyNone \<and> py_str env v = Inl e))
    \<and> (is_str v \<or> v = PyNone \<or> v = PyDict [] \<longrightarrow> (\<exists>s. get_text env l v md = Inr s))
    \<and> ((\<forall>e. json_dumps env v \<noteq> Inl e) \<and> (\<forall>e. py_str env v \<noteq> Inl e) \<longrightarrow>
          (\<exists>s. get_text env l v md = Inr s)))
   \<and> (text_content l \<longrightarrow>
        (\<forall>e. get_text env l v md = Inl e \<longrightarrow>
           \<not> is_str v \<and> e = ValueError (type_mismatch_message v)))"
proof -
  have dumps: "(\<forall>e. json_dumps env v \<noteq> Inl e) \<Longrightarrow> \<exists>s. json_dumps env v = Inr s"
    by (cases "json_dumps env v") auto
  have str: "(\<forall>e. py_str env v \<noteq> Inl e) \<Longrightarrow> \<exists>s. py_str env v = Inr s"
    by (cases "py_str env v") auto
  show ?thesis
    using dumps str by (cases v) (auto simp: get_text_def)
qed

theorem get_text_exceptions_witness:
  "\<not> text_content (patched_loader False)
   \<and> get_text (test_env True True [] None) (patched_loader False) (PyInt huge_int) []
       = Inl digit_limit_error
   \<and> py_str (test_env True True [] None) (PyInt huge_int) = Inl digit_limit_error
   \<and> (\<exists>s. get_text (test_env True True [] None) (patched_loader False) (PyDict []) []
              = Inr s)
   \<and> text_content (patched_loader True)
   \<and> get_text (test_env True True [] None) (patched_loader True) (PyInt 1) []
       = Inl (ValueError (type_mismatch_message (PyInt 1)))
   \<and> \<not> is_str (PyInt 1)"
proof -
  have a: "\<not> text_content (patched_loader False)" and a': "text_content (patched_loader True)"
    by (simp_all add: patched_loader_def constructed_loader_def)
  have b: "get_text (test_env True True [] None) (patched_loader False) (PyInt huge_int) []
             = Inl digit_limit_error"
    by (simp add: get_text_def test_env_def str_known_def str_int_huge
        patched_loader_def constructed_loader_def)
  have c: "get_text (test_env True True [] None) (patched_loader True) (PyInt 1) []
             = Inl (ValueError (type_mismatch_message (PyInt 1)))"
    by (simp add: get_text_def patched_loader_def constructed_loader_def)
  from get_text_exceptions
         [of "patched_loader False" "test_env True True [] None" "PyInt huge_int" "[]"]
       get_text_exceptions
         [of "patched_loader False" "test_env True True [] None" "PyDict []" "[]"]
       get_text_exceptions
         [of "patched_loader True" "test_env True True [] None" "PyInt 1" "[]"]
       a a' b c
  show ?thesis by auto
qed

text \<open>The claim as it was stated fails at the sample \<open>10 ** 5000\<close>: with text mode
  disabled \<open>_get_text\<close> raises the \<open>ValueError\<close> of \<open>str\<close>.\<close>

theorem get_text_exceptions_counterexample:
  "\<not> text_content (patched_loader False)
   \<and> get_text (test_env True True [] None) (patched_loader False) (PyInt huge_int) []
       = Inl digit_limit_error"
  by (simp add: get_text_def test_env_def str_known_def str_int_huge
      patched_loader_def constructed_loader_def)

section \<open>Missing libraries\<close>

text \<open>
  Claim C8. Without the jq package the constructor raises \<open>ImportError\<close> with the
  installation hint, whatever its arguments: no loader comes into being, and the filter
  is not compiled. Without the azure-cosmos package \<open>load\<close> raises \<open>ImportError\<close> with the
  installation hint, and it has made no call on the client.
\<close>

theorem missing_dependency_raised_first:
  "(\<not> jq_installed env \<longrightarrow>
      init env cs db ct q schema ecpq tc
        = Inl (ImportError ''jq package not found, please install it with `pip install jq`''))
   \<and> (\<not> azure_cosmos_installed env \<longrightarrow>
        load env l
          = ([], Inl (ImportError
                (''Could not import azure cosmos python package. ''
                   @ ''Please install it with `pip install azure-cosmos`.''))))"
  by (simp add: init_def load_def azure_cosmos_missing_def)

theorem missing_dependency_raised_first_witness:
  "\<not> jq_installed (test_env False False [] None)
   \<and> \<not> azure_cosmos_installed (test_env False False [] None)
   \<and> init (test_env False False [] None) ''cs'' ''db'' ''c'' ''q'' ''.[]'' True True
       = Inl (ImportError ''jq package not found, please install it with `pip install jq`'')
   \<and> load (test_env False False [] None) (patched_loader True)
       = ([], Inl (ImportError
            (''Could not import azure cosmos python package. ''
               @ ''Please install it with `pip install azure-cosmos`.'')))"
proof -
  have a: "\<not> jq_installed (test_env False False [] None)"
    and b: "\<not> azure_cosmos_installed (test_env False False [] None)"
    by (simp_all add: test_env_def)
  from missing_dependency_raised_first
         [of "test_env False False [] None" "''cs''" "''db''" "''c''" "''q''" "''.[]''"
             True True "patched_loader True"] a b
  show ?thesis by simp
qed

section \<open>All or nothing\<close>

text \<open>An exception of the decoder is the outcome of \<open>_parse\<close>, and the first item whose
  \<open>_parse\<close> raises ends the loop over the items, whatever was accumulated before.\<close>

lemma parse_json_error:
  "json_loads env content = Inl e \<Longrightarrow> parse env l content docs = (docs, Some e)"
  by (simp add: parse_def)

lemma load_items_first_error:
  "load_items env l xs None docs = (docs1, None) \<Longrightarrow>
   parse env l item docs1 = (docs2, Some e) \<Longrightarrow>
     load_items env l (xs @ item # ys) pending docs = (docs2, Some e)"
proof (induction xs arbitrary: docs)
  case Nil
  then show ?case by simp
next
  case (Cons x xs)
  then show ?case by (auto split: prod.splits option.splits)
qed

text \<open>The documents asked for a list of samples.\<close>

lemma length_documents_from: "length (documents_from env l i samples) = length samples"
  by (induction samples arbitrary: i) simp_all

lemma documents_from_append:
  "documents_from env l i (xs @ ys)
     = documents_from env l i xs @ documents_from env l (i + int (length xs)) ys"
  by (induction xs arbitrary: i) (simp_all add: add.assoc add.commute)

text \<open>The inner loop: when every sample is handled without exception, it appends the
  documents asked for and ends as the iterable ends; otherwise it raises.\<close>

lemma parse_samples_clean:
  "list_all (sample_ok env l) samples \<Longrightarrow>
     parse_samples env l i samples pending docs
       = (docs @ documents_from env l i samples, pending)"
proof (induction samples arbitrary: i docs)
  case Nil
  then show ?case by simp
next
  case (Cons sample rest)
  from Cons.prems have ok: "sample_ok env l sample" and oks: "list_all (sample_ok env l) rest"
    by simp_all
  from ok obtain fp src body where fp: "file_path l = Some fp"
    and src: "py_str env fp = Inr src"
    and body: "get_text env l sample [] = Inr body"
    by (auto simp: sample_ok_def split: option.splits sum.splits)
  let ?md = "[(''source'', PyStr src), (''seq_num'', PyInt i)]"
  have body': "get_text env l sample ?md = Inr body"
    using body get_text_metadata [of env l sample ?md "[]"] by simp
  have doc: "document_of env l i sample = \<lparr>page_content = body, metadata = ?md\<rparr>"
    using fp src body by (simp add: document_of_def source_of_def)
  show ?case
    using fp src body' doc Cons.IH [OF oks] by simp
qed

lemma parse_samples_raises:
  "\<not> list_all (sample_ok env l) samples \<Longrightarrow>
     \<exists>docs' e. parse_samples env l i samples pending docs = (docs', Some e)"
proof (induction samples arbitrary: i docs)
  case Nil
  then show ?case by simp
next
  case (Cons sample rest)
  show ?case
  proof (cases "sample_ok env l sample")
    case True
    with Cons.prems have rest: "\<not> list_all (sample_ok env l) rest" by simp
    from True obtain fp src body where fp: "file_path l = Some fp"
      and src: "py_str env fp = Inr src"
      and body: "get_text env l sample [] = Inr body"
      by (auto simp: sample_ok_def split: option.splits sum.splits)
    let ?md = "[(''source'', PyStr src), (''seq_num'', PyInt i)]"
    have body': "get_text env l sample ?md = Inr body"
      using body get_text_metadata [of env l sample ?md "[]"] by simp
    from Cons.IH [OF rest] fp src body' show ?thesis by simp
  next
    case False
    show ?thesis
    proof (cases "file_path l")
      case None
      then show ?thesis by simp
    next
      case (Some fp)
      show ?thesis
      proof (cases "py_str env fp")
        case (Inl e)
        with Some show ?thesis by simp
      next
        case (Inr src)
        let ?md = "[(''source'', PyStr src), (''seq_num'', PyInt i)]"
        from False Some Inr obtain e where "get_text env l sample [] = Inl e"
          by (auto simp: sample_ok_def split: sum.splits)
        then have "get_text env l sample ?md = Inl e"
          using get_text_metadata [of env l sample ?md "[]"] by simp
        with Some Inr show ?thesis by simp
      qed
    qed
  qed
qed

text \<open>The same for \<open>_parse\<close> on one item.\<close>

lemma parse_clean:
  "item_ok env l content \<Longrightarrow>
     parse env l content docs
       = (docs @ documents_from env l (int (length docs) + 1) (samples_of env l content), None)"
  by (auto simp: item_ok_def parse_def samples_of_def parse_samples_clean
      split: sum.splits prod.splits)

lemma parse_raises:
  "\<not> item_ok env l content \<Longrightarrow> \<exists>docs' e. parse env l content docs = (docs', Some e)"
proof (cases "json_loads env content")
  case (Inl e)
  then show ?thesis by (simp add: parse_def)
next
  case (Inr v)
  assume bad: "\<not> item_ok env l content"
  obtain samples pending where jq: "jq_schema l v = (samples, pending)"
    by (cases "jq_schema l v")
  show ?thesis
  proof (cases "list_all (sample_ok env l) samples")
    case True
    with bad Inr jq obtain e where "pending = Some e"
      by (auto simp: item_ok_def)
    with True Inr jq show ?thesis
      by (simp add: parse_def parse_samples_clean)
  next
    case False
    then show ?thesis
      using Inr jq parse_samples_raises [of env l samples "int (length docs) + 1" pending docs]
      by (simp add: parse_def)
  qed
qed

text \<open>The same for the loop over the items.\<close>

lemma load_items_clean:
  "list_all (item_ok env l) items \<Longrightarrow>
     load_items env l items pending docs
       = (docs @ documents_from env l (int (length docs) + 1) (all_samples env l items),
          pending)"
proof (induction items arbitrary: docs)
  case Nil
  then show ?case by (simp add: all_samples_def)
next
  case (Cons item items)
  from Cons.prems have ok: "item_ok env l item" and oks: "list_all (item_ok env l) items"
    by simp_all
  let ?here = "documents_from env l (int (length docs) + 1) (samples_of env l item)"
  have p: "parse env l item docs = (docs @ ?here, None)"
    using ok by (rule parse_clean)
  have n: "int (length (docs @ ?here)) + 1
             = int (length docs) + 1 + int (length (samples_of env l item))"
    by (simp add: length_documents_from)
  have m: "int (length docs) + int (length (samples_of env l item)) + 1
             = int (length docs) + 1 + int (length (samples_of env l item))"
    by simp
  show ?case
    using p Cons.IH [OF oks, of "docs @ ?here"] n
    by (simp add: all_samples_def documents_from_append m)
qed

lemma load_items_raises:
  "\<not> list_all (item_ok env l) items \<Longrightarrow>
     \<exists>docs' e. load_items env l items pending docs = (docs', Some e)"
proof (induction items arbitrary: docs)
  case Nil
  then show ?case by simp
next
  case (Cons item items)
  show ?case
  proof (cases "item_ok env l item")
    case True
    with Cons.prems have rest: "\<not> list_all (item_ok env l) items" by simp
    from True have "parse env l item docs
        = (docs @ documents_from env l (int (length docs) + 1) (samples_of env l item), None)"
      by (rule parse_clean)
    with Cons.IH [OF rest] show ?thesis by simp
  next
    case False
    then obtain docs' e where "parse env l item docs = (docs', Some e)"
      using parse_raises by blast
    then show ?thesis by simp
  qed
qed

text \<open>
  Claim C9. Let the query yield \<open>items\<close> and then raise \<open>pending\<close>, if anything. If the
  client is ready and the run is clean (no exception from the query's iteration, from
  decoding an item, from the filter's iteration, or from handling a sample), \<open>load\<close>
  returns the documents of all samples of all items, in order. In every other case
  \<open>load\<close> raises, and nothing is returned. In particular, when the loop over the items
  stops on an exception with the documents \<open>docs\<close> accumulated, \<open>load\<close> raises that
  exception and \<open>docs\<close> is dropped.
\<close>

theorem load_all_or_nothing:
  assumes "query_items env (conn_str l) (database l) (container l) (query l)
             (enable_cross_partition_query l) = (items, pending)"
  shows "(client_ready env l \<and> run_ok env l items pending \<longrightarrow>
            snd (load env l) = Inr (documents_from env l 1 (all_samples env l items)))
       \<and> (\<not> (client_ready env l \<and> run_ok env l items pending) \<longrightarrow>
            (\<exists>e. snd (load env l) = Inl e))
       \<and> (\<forall>docs e. client_ready env l \<and> load_items env l items pending [] = (docs, Some e) \<longrightarrow>
            snd (load env l) = Inl e)"
proof (intro conjI impI allI)
  assume "client_ready env l \<and> run_ok env l items pending"
  then have ready: "client_ready env l" and p: "pending = None"
    and ok: "list_all (item_ok env l) items"
    by (simp_all add: run_ok_def)
  have "load_items env l items pending []
          = (documents_from env l 1 (all_samples env l items), None)"
    using load_items_clean [OF ok, of pending "[]"] p by simp
  with ready assms show "snd (load env l) = Inr (documents_from env l 1 (all_samples env l items))"
    by (simp add: client_ready_def load_def Let_def)
next
  assume bad: "\<not> (client_ready env l \<and> run_ok env l items pending)"
  show "\<exists>e. snd (load env l) = Inl e"
  proof (cases "client_ready env l")
    case False
    then show ?thesis
      by (auto simp: client_ready_def load_def Let_def split: option.splits prod.splits)
  next
    case True
    with bad have "\<not> run_ok env l items pending" by simp
    then have "\<exists>docs' e. load_items env l items pending [] = (docs', Some e)"
    proof (cases "list_all (item_ok env l) items")
      case True
      assume "\<not> run_ok env l items pending"
      with True obtain e where "pending = Some e" by (auto simp: run_ok_def)
      with load_items_clean [OF True, of pending "[]"] show ?thesis by simp
    next
      case False
      then show ?thesis by (rule load_items_raises)
    qed
    then obtain docs' e where "load_items env l items pending [] = (docs', Some e)"
      by blast
    with True assms show ?thesis
      by (simp add: client_ready_def load_def Let_def)
  qed
next
  fix docs e
  assume "client_ready env l \<and> load_items env l items pending [] = (docs, Some e)"
  with assms show "snd (load env l) = Inl e"
    by (simp add: client_ready_def load_def Let_def)
qed

theorem load_all_or_nothing_witness:
  \<open>load_items (test_env True True [''{"a": "x", "b": "y"}'', ''not json'', ''["z"]''] None)
      (patched_loader True) [''{"a": "x", "b": "y"}'', ''not json'', ''["z"]''] None []
     = (xy_docs, Some (UpstreamError ''JSONDecodeError''))
   \<and> snd (load (test_env True True [''{"a": "x", "b": "y"}'', ''not json'', ''["z"]''] None)
            (patched_loader True))
     = Inl (UpstreamError ''JSONDecodeError'')
   \<and> (\<exists>e. snd (load (test_env True True [''["z"]''] (Some (UpstreamError ''ServiceUnavailable'')))
                  (patched_loader True)) = Inl e)
   \<and> snd (load (test_env True True [''{"a": "x", "b": "y"}'', ''["z"]''] None)
            (patched_loader True))
     = Inr xyz_docs\<close>
proof -
  let ?bad = \<open>[''{"a": "x", "b": "y"}'', ''not json'', ''["z"]'']\<close>
  let ?good = \<open>[''{"a": "x", "b": "y"}'', ''["z"]'']\<close>
  let ?cut = \<open>[''["z"]'']\<close>
  let ?down = "Some (UpstreamError ''ServiceUnavailable'')"
  let ?l = "patched_loader True"
  have q1: "query_items (test_env True True ?bad None) (conn_str ?l) (database ?l)
              (container ?l) (query ?l) (enable_cross_partition_query ?l) = (?bad, None)"
    and q2: "query_items (test_env True True ?good None) (conn_str ?l) (database ?l)
              (container ?l) (query ?l) (enable_cross_partition_query ?l) = (?good, None)"
    and q3: "query_items (test_env True True ?cut ?down) (conn_str ?l) (database ?l)
              (container ?l) (query ?l) (enable_cross_partition_query ?l) = (?cut, ?down)"
    by (simp_all add: test_env_def)
  have r: "load_items (test_env True True ?bad None) ?l ?bad None []
             = (xy_docs, Some (UpstreamError ''JSONDecodeError''))"
    by (simp add: run_simps xy_docs_def)
  have c1: "client_ready (test_env True True ?bad None) ?l"
    and c2: "client_ready (test_env True True ?good None) ?l"
    by (simp_all add: client_ready_def test_env_def)
  have ok: "run_ok (test_env True True ?good None) ?l ?good None"
    by (simp add: run_ok_def item_ok_def sample_ok_def run_simps)
  have down: "\<not> run_ok (test_env True True ?cut ?down) ?l ?cut ?down"
    by (simp add: run_ok_def)
  have docs: "documents_from (test_env True True ?good None) ?l 1
                (all_samples (test_env True True ?good None) ?l ?good) = xyz_docs"
    by (simp add: all_samples_def samples_of_def document_of_def source_of_def run_simps
        xyz_docs_def xy_docs_def)
  from load_all_or_nothing [OF q1] load_all_or_nothing [OF q2] load_all_or_nothing [OF q3]
       c1 c2 ok down docs r
  show ?thesis by auto
qed

end
